theory Spec2Isabelle
  imports Main "HOL-Library.Word"
begin

section \<open>The time source\<close>

text \<open>
  \<^verbatim>\<open>time.Duration\<close> and \<^verbatim>\<open>Item.Expiration\<close> are Go \<^verbatim>\<open>int64\<close>: 64-bit words,
  compared as signed numbers (\<open><s\<close>). A \<^verbatim>\<open>time.Time\<close> is an instant; it is modelled as
  the (unbounded) number of nanoseconds since the Unix epoch, negative before 1970. Go's
  \<^verbatim>\<open>Time.UnixNano()\<close> computes that number in \<^verbatim>\<open>int64\<close> arithmetic, so it wraps
  around outside the years 1678 to 2262; \<^verbatim>\<open>Time.Add(d)\<close> moves the instant by the signed
  duration.
\<close>

type_synonym int64 = "64 word"
type_synonym Duration = int64
type_synonym Time = int

definition Add :: "Time \<Rightarrow> Duration \<Rightarrow> Time" where
  "Add t d = t + sint d"

definition UnixNano :: "Time \<Rightarrow> int64" where
  "UnixNano t = word_of_int t"

text \<open>
  The injected \<^verbatim>\<open>clockwork.Clock\<close>: the instant it reports at the moment, and the number
  of \<^verbatim>\<open>Now()\<close> calls it has answered. \<open>Advance\<close> is the passage of time between two
  operations (\<^verbatim>\<open>FakeClock.Advance\<close> in the tests, any number of times; wall-clock time
  for the real clock).
\<close>

record Clock =
  instant :: Time
  reads :: nat

definition Now :: "Clock \<Rightarrow> Time \<times> Clock" where
  "Now clk = (instant clk, clk\<lparr>reads := Suc (reads clk)\<rparr>)"

definition Advance :: "int \<Rightarrow> Clock \<Rightarrow> Clock" where
  "Advance d clk = clk\<lparr>instant := instant clk + d\<rparr>"

definition clockAt :: "Time \<Rightarrow> Clock" where
  "clockAt t = \<lparr>instant = t, reads = 0\<rparr>"

section \<open>The logger\<close>

text \<open>
  \<^verbatim>\<open>slog.Level\<close> is an integer (Debug = -4, Info = 0, Warn = 4, Error = 8). A logger
  is its minimum level and the lines written so far; a line is the level, the message
  and the remaining arguments of the call.
\<close>

type_synonym Level = int

definition LevelDebug :: Level where "LevelDebug = - 4"
definition LevelInfo :: Level where "LevelInfo = 0"
definition LevelWarn :: Level where "LevelWarn = 4"
definition LevelError :: Level where "LevelError = 8"

record Logger =
  minLevel :: Level
  written :: "(Level \<times> string \<times> string list) list"

definition Debug :: "Logger \<Rightarrow> string \<Rightarrow> string list \<Rightarrow> Logger" where
  "Debug lg msg args =
     (if minLevel lg \<le> LevelDebug
      then lg\<lparr>written := written lg @ [(LevelDebug, msg, args)]\<rparr>
      else lg)"

text \<open>
  \<^verbatim>\<open>setupLogger\<close>, with the value of the environment variable \<^verbatim>\<open>LOG_LEVEL\<close> as its
  argument (empty when unset). \<^verbatim>\<open>slog.Default()\<close> logs from level Info.
\<close>

definition setupLogger :: "string \<Rightarrow> Logger" where
  "setupLogger logLevelStr =
     (if logLevelStr \<noteq> ''''
      then \<lparr>minLevel =
              (if logLevelStr = ''DEBUG'' then LevelDebug
               else if logLevelStr = ''INFO'' then LevelInfo
               else if logLevelStr = ''WARN'' then LevelWarn
               else if logLevelStr = ''ERROR'' then LevelError
               else LevelInfo),
            written = []\<rparr>
      else \<lparr>minLevel = LevelInfo, written = []\<rparr>)"

section \<open>The cache\<close>

record 'v Item =
  Value :: 'v
  Expiration :: int64

text \<open>
  The repository holds two versions of \<^verbatim>\<open>cache.go\<close>. The struct of the version without
  logging is the record \<open>Cache_nolog\<close>; the version with logging adds the field
  \<open>logger\<close>. The mutex \<^verbatim>\<open>mu\<close> and the channel \<^verbatim>\<open>stopCleanup\<close> carry no data: every
  operation below is one atomic step on the state, which is what holding the lock
  gives, and a send on the channel is an effect returned by \<open>Stop\<close>.
\<close>

record 'v Cache_nolog =
  items :: "string \<rightharpoonup> 'v Item"
  defaultExpiration :: Duration
  cleanupInterval :: Duration
  clock :: Clock

record 'v Cache = "'v Cache_nolog" +
  logger :: Logger

definition forget_logger :: "'v Cache \<Rightarrow> 'v Cache_nolog" where
  "forget_logger c =
     \<lparr>items = items c, defaultExpiration = defaultExpiration c,
      cleanupInterval = cleanupInterval c, clock = clock c\<rparr>"

text \<open>The condition of both \<^verbatim>\<open>Get\<close> and the sweep: \<^verbatim>\<open>0 < v.Expiration && v.Expiration < now\<close>.\<close>

definition expired :: "'v Item \<Rightarrow> int64 \<Rightarrow> bool" where
  "expired v now \<longleftrightarrow> 0 <s Expiration v \<and> Expiration v <s now"

subsection \<open>The version with logging\<close>

text \<open>
  \<^verbatim>\<open>NewCache\<close>; its last argument is the value of \<^verbatim>\<open>LOG_LEVEL\<close>. It starts the
  cleanup goroutine iff \<open>NewCache_starts_cleanup\<close>.
\<close>

definition NewCache :: "Duration \<Rightarrow> Duration \<Rightarrow> Clock \<Rightarrow> string \<Rightarrow> 'v Cache" where
  "NewCache defaultExp cleanupInt clk logLevelStr =
     \<lparr>items = Map.empty, defaultExpiration = defaultExp, cleanupInterval = cleanupInt,
      clock = clk, logger = setupLogger logLevelStr\<rparr>"

definition NewCache_starts_cleanup :: "Duration \<Rightarrow> bool" where
  "NewCache_starts_cleanup cleanupInt \<longleftrightarrow> 0 <s cleanupInt"

text \<open>\<^verbatim>\<open>NewDefaultCache\<close>: a sweep every 30 seconds; \<open>clk\<close> is the real clock.\<close>

definition NewDefaultCache :: "Duration \<Rightarrow> Clock \<Rightarrow> string \<Rightarrow> 'v Cache" where
  "NewDefaultCache defaultExp clk logLevelStr =
     NewCache defaultExp (30 * 1000000000) clk logLevelStr"

definition SetWithExpiration :: "'v Cache \<Rightarrow> string \<Rightarrow> 'v \<Rightarrow> Duration \<Rightarrow> 'v Cache" where
  "SetWithExpiration c key val expiration =
     (let (exp, clk) =
            (if 0 <s expiration
             then (let (t, clk') = Now (clock c) in (UnixNano (Add t expiration), clk'))
             else (0, clock c))
      in c\<lparr>items := (items c)(key \<mapsto> \<lparr>Value = val, Expiration = exp\<rparr>), clock := clk\<rparr>)"

definition Set :: "'v Cache \<Rightarrow> string \<Rightarrow> 'v \<Rightarrow> 'v Cache" where
  "Set c key val = SetWithExpiration c key val (defaultExpiration c)"

definition SetWithoutExpiration :: "'v Cache \<Rightarrow> string \<Rightarrow> 'v \<Rightarrow> 'v Cache" where
  "SetWithoutExpiration c key val = SetWithExpiration c key val 0"

definition Delete :: "'v Cache \<Rightarrow> string \<Rightarrow> 'v Cache" where
  "Delete c key = c\<lparr>items := (items c)(key := None)\<rparr>"

text \<open>
  \<^verbatim>\<open>Get\<close> returns the value (\<open>None\<close> for Go's \<^verbatim>\<open>nil\<close>), the flag, and the state after
  the call. The clock is read only when the key is present and \<^verbatim>\<open>0 < item.Expiration\<close>
  (\<^verbatim>\<open>&&\<close> does not evaluate its right side otherwise).
\<close>

definition Get :: "'v Cache \<Rightarrow> string \<Rightarrow> ('v option \<times> bool) \<times> 'v Cache" where
  "Get c key =
     (case items c key of
        None \<Rightarrow> ((None, False), c)
      | Some item \<Rightarrow>
          if 0 <s Expiration item
          then (let (t, clk) = Now (clock c); c' = c\<lparr>clock := clk\<rparr>
                in if Expiration item <s UnixNano t
                   then ((None, False),
                         c'\<lparr>logger := Debug (logger c') ''Item with key `''
                                 [key, ''` found but expired. Not returning.'']\<rparr>)
                   else ((Some (Value item), True), c'))
          else ((Some (Value item), True), c))"

text \<open>
  The loop of \<^verbatim>\<open>deleteExpired\<close>. Go leaves the order of \<^verbatim>\<open>range c.items\<close> open, so
  the order \<open>ks\<close> in which the keys come is an argument; \<open>range_order\<close> says that it
  enumerates the keys of the map, each once. A key that is no longer in the map when
  its turn comes is skipped, as Go does.
\<close>

definition range_order :: "(string \<rightharpoonup> 'v Item) \<Rightarrow> string list \<Rightarrow> bool" where
  "range_order m ks \<longleftrightarrow> distinct ks \<and> set ks = dom m"

fun deleteExpired_loop :: "int64 \<Rightarrow> string list \<Rightarrow> (string \<rightharpoonup> 'v Item) \<Rightarrow> (string \<rightharpoonup> 'v Item)" where
  "deleteExpired_loop now [] m = m"
| "deleteExpired_loop now (k # ks) m =
     (case m k of
        None \<Rightarrow> deleteExpired_loop now ks m
      | Some v \<Rightarrow>
          if 0 <s Expiration v \<and> Expiration v <s now
          then deleteExpired_loop now ks (m(k := None))
          else deleteExpired_loop now ks m)"

definition deleteExpired :: "'v Cache \<Rightarrow> string list \<Rightarrow> 'v Cache" where
  "deleteExpired c ks =
     (let lg = Debug (logger c) ''Cleaning up expired items.'' [];
          (t, clk) = Now (clock c);
          now = UnixNano t
      in c\<lparr>items := deleteExpired_loop now ks (items c), clock := clk, logger := lg\<rparr>)"

text \<open>
  \<^verbatim>\<open>Stop\<close> returns the channel operations it performs: the send on the unbuffered
  \<^verbatim>\<open>stopCleanup\<close>, which blocks until the cleanup goroutine receives it, or none.
\<close>

datatype chan_op = Send_stopCleanup

definition Stop :: "'v Cache \<Rightarrow> chan_op list \<times> 'v Cache" where
  "Stop c = (if 0 <s cleanupInterval c then ([Send_stopCleanup], c) else ([], c))"

subsection \<open>The version without logging\<close>

definition NewCache_nolog :: "Duration \<Rightarrow> Duration \<Rightarrow> Clock \<Rightarrow> 'v Cache_nolog" where
  "NewCache_nolog defaultExp cleanupInt clk =
     \<lparr>items = Map.empty, defaultExpiration = defaultExp, cleanupInterval = cleanupInt,
      clock = clk\<rparr>"

definition NewDefaultCache_nolog :: "Duration \<Rightarrow> Clock \<Rightarrow> 'v Cache_nolog" where
  "NewDefaultCache_nolog defaultExp clk = NewCache_nolog defaultExp (5 * 1000000000) clk"

definition SetWithExpiration_nolog ::
  "'v Cache_nolog \<Rightarrow> string \<Rightarrow> 'v \<Rightarrow> Duration \<Rightarrow> 'v Cache_nolog" where
  "SetWithExpiration_nolog c key val expiration =
     (let (exp, clk) =
            (if 0 <s expiration
             then (let (t, clk') = Now (clock c) in (UnixNano (Add t expiration), clk'))
             else (0, clock c))
      in c\<lparr>items := (items c)(key \<mapsto> \<lparr>Value = val, Expiration = exp\<rparr>), clock := clk\<rparr>)"

definition Set_nolog :: "'v Cache_nolog \<Rightarrow> string \<Rightarrow> 'v \<Rightarrow> 'v Cache_nolog" where
  "Set_nolog c key val = SetWithExpiration_nolog c key val (defaultExpiration c)"

definition SetWithoutExpiration_nolog :: "'v Cache_nolog \<Rightarrow> string \<Rightarrow> 'v \<Rightarrow> 'v Cache_nolog" where
  "SetWithoutExpiration_nolog c key val = SetWithExpiration_nolog c key val 0"

definition Delete_nolog :: "'v Cache_nolog \<Rightarrow> string \<Rightarrow> 'v Cache_nolog" where
  "Delete_nolog c key = c\<lparr>items := (items c)(key := None)\<rparr>"

definition Get_nolog :: "'v Cache_nolog \<Rightarrow> string \<Rightarrow> ('v option \<times> bool) \<times> 'v Cache_nolog" where
  "Get_nolog c key =
     (case items c key of
        None \<Rightarrow> ((None, False), c)
      | Some item \<Rightarrow>
          if 0 <s Expiration item
          then (let (t, clk) = Now (clock c); c' = c\<lparr>clock := clk\<rparr>
                in if Expiration item <s UnixNano t
                   then ((None, False), c')
                   else ((Some (Value item), True), c'))
          else ((Some (Value item), True), c))"

definition deleteExpired_nolog :: "'v Cache_nolog \<Rightarrow> string list \<Rightarrow> 'v Cache_nolog" where
  "deleteExpired_nolog c ks =
     (let (t, clk) = Now (clock c);
          now = UnixNano t
      in c\<lparr>items := deleteExpired_loop now ks (items c), clock := clk\<rparr>)"

definition Stop_nolog :: "'v Cache_nolog \<Rightarrow> chan_op list \<times> 'v Cache_nolog" where
  "Stop_nolog c = (if 0 <s cleanupInterval c then ([Send_stopCleanup], c) else ([], c))"

subsection \<open>Passage of time\<close>

text \<open>
  The tests' helper \<^verbatim>\<open>elapses\<close> advances the cache's clock and nothing else. Its
  argument here is any number of nanoseconds, so that it also stands for several
  advances in a row.
\<close>

definition elapses :: "int \<Rightarrow> 'v Cache \<Rightarrow> 'v Cache" where
  "elapses d c = c\<lparr>clock := Advance d (clock c)\<rparr>"

section \<open>Basic facts\<close>

lemma sint_UnixNano: "- (2 ^ 63) \<le> t \<Longrightarrow> t < 2 ^ 63 \<Longrightarrow> sint (UnixNano t) = t"
  unfolding UnixNano_def by (simp add: int_word_sint)

lemma items_SetWithExpiration:
  "items (SetWithExpiration c k v ttl) =
     (items c)(k \<mapsto> \<lparr>Value = v,
        Expiration = (if 0 <s ttl then UnixNano (Add (instant (clock c)) ttl) else 0)\<rparr>)"
  by (simp add: SetWithExpiration_def Now_def Let_def)

lemma instant_SetWithExpiration:
  "instant (clock (SetWithExpiration c k v ttl)) = instant (clock c)"
  by (simp add: SetWithExpiration_def Now_def Let_def)

lemma defaultExpiration_SetWithExpiration:
  "defaultExpiration (SetWithExpiration c k v ttl) = defaultExpiration c"
  by (simp add: SetWithExpiration_def Now_def Let_def split: prod.splits)

lemma items_elapses: "items (elapses e c) = items c"
  by (simp add: elapses_def)

lemma instant_elapses: "instant (clock (elapses e c)) = instant (clock c) + e"
  by (simp add: elapses_def Advance_def)

lemma defaultExpiration_elapses: "defaultExpiration (elapses e c) = defaultExpiration c"
  by (simp add: elapses_def)

text \<open>What \<open>Get\<close> returns, and that it never touches the map.\<close>

lemma fst_Get:
  "fst (Get c k) =
     (case items c k of
        None \<Rightarrow> (None, False)
      | Some it \<Rightarrow> if expired it (UnixNano (instant (clock c))) then (None, False)
                   else (Some (Value it), True))"
  by (simp add: Get_def expired_def Now_def Let_def split: option.splits)

lemma items_Get: "items (snd (Get c k)) = items c"
  by (simp add: Get_def Now_def Let_def split: option.splits)

text \<open>
  A read after a write with a positive time to live, as long as the instants involved
  are non-negative \<^verbatim>\<open>int64\<close> numbers of nanoseconds: the entry is returned up to and
  including the instant of expiry.
\<close>

lemma Get_after_SetWithExpiration:
  assumes ttl: "0 <s ttl"
    and t0: "0 \<le> instant (clock c)" "instant (clock c) + sint ttl < 2 ^ 63"
    and e: "0 \<le> e" "instant (clock c) + e < 2 ^ 63"
  shows "fst (Get (elapses e (SetWithExpiration c k v ttl)) k) =
           (if e \<le> sint ttl then (Some v, True) else (None, False))"
proof -
  let ?t0 = "instant (clock c)"
  from ttl have pos: "0 < sint ttl" by (simp add: word_sless_alt)
  have exp: "sint (UnixNano (Add ?t0 ttl)) = ?t0 + sint ttl"
    unfolding Add_def using t0 pos by (intro sint_UnixNano) auto
  have now: "sint (UnixNano (?t0 + e)) = ?t0 + e"
    using t0 e by (intro sint_UnixNano) auto
  show ?thesis
    using ttl pos t0(1)
    by (simp add: fst_Get items_elapses instant_elapses items_SetWithExpiration
        instant_SetWithExpiration expired_def word_sless_alt exp now)
qed

text \<open>
  Outside that range the stored expiration is not the instant of expiry. With the clock
  in November 2023 and the largest duration as time to live, \<^verbatim>\<open>UnixNano\<close> wraps
  around to a negative number, which \<open>Get\<close> takes for "no expiration".
\<close>

lemma Expiration_wraps_around:
  "items (SetWithExpiration (NewCache 0 0 (clockAt 1700000000000000000) '''')
            ''k'' ''v'' 9223372036854775807) ''k'' =
     Some \<lparr>Value = ''v'', Expiration = - 7523372036854775809\<rparr>"
  by (simp add: items_SetWithExpiration NewCache_def clockAt_def UnixNano_def Add_def
      word_sless_alt)

section \<open>The claims\<close>

text \<open>
  C1. After \<open>SetWithExpiration k v ttl\<close> with \<open>ttl > 0\<close>, \<open>Get k\<close> returns the value
  and true whenever the time elapsed since the call is at most \<open>ttl\<close>, and nothing and
  false whenever it is more than \<open>ttl\<close>: the comparison of \<open>Get\<close> is strict, so the
  entry is still returned at the instant of expiry itself. This is for a clock whose
  instants (at the call, at the expiry and at the read) are non-negative \<^verbatim>\<open>int64\<close>
  Unix nanoseconds.
\<close>

theorem C1_get_until_ttl:
  assumes "0 <s ttl"
    and "0 \<le> instant (clock c)" and "instant (clock c) + sint ttl < 2 ^ 63"
    and "0 \<le> e" and "instant (clock c) + e < 2 ^ 63"
  shows "fst (Get (elapses e (SetWithExpiration c k v ttl)) k) =
           (if e \<le> sint ttl then (Some v, True) else (None, False))"
  using assms by (rule Get_after_SetWithExpiration)

text \<open>
  The scenario of the tests: two seconds to live, read after 1900 ms and after 2100 ms.
\<close>

theorem C1_get_until_ttl_witness:
  "0 <s (2000000000 :: Duration) \<and>
   fst (Get (elapses 1900000000
          (SetWithExpiration (NewCache 1000000000 2000000000 (clockAt 0) '''')
             ''foo'' ''foo value'' 2000000000)) ''foo'') = (Some ''foo value'', True) \<and>
   fst (Get (elapses 2100000000
          (SetWithExpiration (NewCache 1000000000 2000000000 (clockAt 0) '''')
             ''foo'' ''foo value'' 2000000000)) ''foo'') = (None, False)"
  using
    C1_get_until_ttl [where ttl = 2000000000 and e = 1900000000 and k = "''foo''"
      and v = "''foo value''" and c = "NewCache 1000000000 2000000000 (clockAt 0) ''''"]
    C1_get_until_ttl [where ttl = 2000000000 and e = 2100000000 and k = "''foo''"
      and v = "''foo value''" and c = "NewCache 1000000000 2000000000 (clockAt 0) ''''"]
  by (simp add: NewCache_def clockAt_def word_sless_alt)

text \<open>
  As the claim is written, the read at an elapsed time equal to \<open>ttl\<close> finds nothing.
  One second to live, read exactly one second later: the value is returned.
\<close>

theorem C1_counterexample:
  "(1000000000 :: int) \<ge> sint (1000000000 :: Duration) \<and>
   fst (Get (elapses 1000000000
          (SetWithExpiration (NewCache 0 0 (clockAt 1700000000000000000) '''')
             ''k'' ''v'' 1000000000)) ''k'') = (Some ''v'', True)"
  by (simp add: Get_def elapses_def SetWithExpiration_def NewCache_def clockAt_def
      Now_def Advance_def UnixNano_def Add_def Let_def word_sless_alt)

text \<open>
  C2. \<open>Get k\<close> returns nothing and false if and only if \<open>k\<close> is not in the map or the
  stored expiration is strictly positive and strictly less than the current time of the
  clock; otherwise it returns the stored value and true.
\<close>

theorem C2_get_absent_iff:
  "(fst (Get c k) = (None, False) \<longleftrightarrow>
      items c k = None \<or>
      (\<exists>it. items c k = Some it \<and> 0 <s Expiration it \<and>
            Expiration it <s UnixNano (instant (clock c)))) \<and>
   (\<forall>it. items c k = Some it \<and>
         \<not> (0 <s Expiration it \<and> Expiration it <s UnixNano (instant (clock c))) \<longrightarrow>
         fst (Get c k) = (Some (Value it), True))"
  by (auto simp: fst_Get expired_def split: option.splits)

theorem C2_get_absent_iff_witness:
  "fst (Get (SetWithExpiration (NewCache 0 0 (clockAt 500) '''') ''k'' ''v'' 20) ''k'') =
     (Some ''v'', True)"
  using C2_get_absent_iff
    [where c = "SetWithExpiration (NewCache 0 0 (clockAt 500) '''') ''k'' ''v'' 20"
      and k = "''k''"]
  by (simp add: items_SetWithExpiration instant_SetWithExpiration NewCache_def clockAt_def
      UnixNano_def Add_def word_sless_alt)

text \<open>
  As the claim is written, an entry whose expiration is non-zero and less than the
  current time is not returned. A negative expiration is both, and \<open>Get\<close> returns the
  value: its test is \<^verbatim>\<open>0 < item.Expiration\<close>.
\<close>

theorem C2_counterexample:
  "(- 1 :: int64) \<noteq> 0 \<and> (- 1 :: int64) <s UnixNano 1700000000000000000 \<and>
   fst (Get \<lparr>items = [''k'' \<mapsto> \<lparr>Value = ''v'', Expiration = - 1\<rparr>],
             defaultExpiration = 0, cleanupInterval = 0,
             clock = clockAt 1700000000000000000, logger = setupLogger ''''\<rparr> ''k'') =
     (Some ''v'', True)"
  by (simp add: Get_def clockAt_def Now_def UnixNano_def Let_def word_sless_alt)

text \<open>
  C3. \<open>SetWithExpiration\<close> with \<open>ttl \<le> 0\<close> stores the expiration 0;
  \<open>SetWithoutExpiration k v\<close> is \<open>SetWithExpiration k v 0\<close>; and after either call
  \<open>Get k\<close> returns the value and true whatever time has elapsed.
\<close>

theorem C3_never_expires:
  assumes "ttl \<le>s 0"
  shows "items (SetWithExpiration c k v ttl) k = Some \<lparr>Value = v, Expiration = 0\<rparr> \<and>
         SetWithoutExpiration c k v = SetWithExpiration c k v 0 \<and>
         fst (Get (elapses e (SetWithExpiration c k v ttl)) k) = (Some v, True) \<and>
         fst (Get (elapses e (SetWithoutExpiration c k v)) k) = (Some v, True)"
proof -
  from assms have "\<not> 0 <s ttl" by (simp add: word_sless_alt word_sle_eq)
  then show ?thesis
    by (simp add: fst_Get items_elapses items_SetWithExpiration SetWithoutExpiration_def
        expired_def word_sless_alt)
qed

text \<open>The test: no expiration, read ten seconds later; and a negative time to live.\<close>

theorem C3_never_expires_witness:
  "(- 5 :: Duration) \<le>s 0 \<and>
   items (SetWithExpiration (NewCache 1000000000 2000000000 (clockAt 0) '''')
            ''foo'' ''foo value'' (- 5)) ''foo'' =
     Some \<lparr>Value = ''foo value'', Expiration = 0\<rparr> \<and>
   fst (Get (elapses 10000000000
          (SetWithoutExpiration (NewCache 1000000000 2000000000 (clockAt 0) '''')
             ''foo'' ''foo value'')) ''foo'') = (Some ''foo value'', True)"
  using
    C3_never_expires [where ttl = "- 5" and e = 10000000000 and k = "''foo''"
      and v = "''foo value''" and c = "NewCache 1000000000 2000000000 (clockAt 0) ''''"]
    C3_never_expires [where ttl = 0 and e = 10000000000 and k = "''foo''"
      and v = "''foo value''" and c = "NewCache 1000000000 2000000000 (clockAt 0) ''''"]
  by (simp add: word_sle_eq)

text \<open>
  Without any assumption on the clock: \<^verbatim>\<open>UnixNano\<close> may wrap around, but of two instants
  less than \<open>2 ^ 63\<close> nanoseconds apart, the earlier one never reads as later than a
  positive reading of the later one. So a read at most \<open>ttl\<close> after the write always
  finds the value.
\<close>

lemma sint_UnixNano_mono:
  assumes d: "0 \<le> d" "d < 2 ^ 63" and pos: "0 < sint (UnixNano b)"
  shows "sint (UnixNano (b - d)) \<le> sint (UnixNano b)"
proof -
  let ?B = "(b + 2 ^ 63) mod (2 ^ 64 :: int)"
  have B: "?B < 2 ^ 64" by simp
  from pos have B': "2 ^ 63 < ?B" by (simp add: UnixNano_def int_word_sint)
  have "(b - d + 2 ^ 63) mod (2 ^ 64 :: int) = (?B - d) mod 2 ^ 64"
    by (simp add: mod_diff_left_eq algebra_simps)
  also have "\<dots> = ?B - d"
    using d B B' by (intro mod_pos_pos_trivial) auto
  finally have "(b - d + 2 ^ 63) mod (2 ^ 64 :: int) \<le> ?B"
    using d by simp
  moreover have "\<And>x. sint (UnixNano x) = (x + 2 ^ 63) mod 2 ^ 64 - 2 ^ 63"
    by (simp add: UnixNano_def int_word_sint)
  ultimately show ?thesis
    by (simp only: diff_right_mono)
qed

lemma Get_live_after_SetWithExpiration:
  assumes e: "0 \<le> e" "e \<le> sint ttl"
  shows "fst (Get (elapses e (SetWithExpiration c k v ttl)) k) = (Some v, True)"
proof (cases "0 <s ttl")
  case False
  then show ?thesis
    by (simp add: fst_Get items_elapses items_SetWithExpiration expired_def word_sless_alt)
next
  case True
  let ?t = "instant (clock c)"
  let ?b = "?t + sint ttl"
  have r: "sint ttl < 2 ^ 63" using sint_lt [of ttl] by simp
  have "\<not> (0 < sint (UnixNano ?b) \<and> sint (UnixNano ?b) < sint (UnixNano (?t + e)))"
  proof
    assume a: "0 < sint (UnixNano ?b) \<and> sint (UnixNano ?b) < sint (UnixNano (?t + e))"
    have "sint (UnixNano (?b - (sint ttl - e))) \<le> sint (UnixNano ?b)"
      using e r a by (intro sint_UnixNano_mono) auto
    moreover have "?b - (sint ttl - e) = ?t + e" by simp
    ultimately show False using a by simp
  qed
  with True show ?thesis
    by (simp add: fst_Get items_elapses instant_elapses items_SetWithExpiration
        instant_SetWithExpiration expired_def word_sless_alt Add_def)
qed

text \<open>
  C4. A \<open>Set\<close> or \<open>SetWithExpiration\<close> on a key stores the new value with an expiration
  computed from the current time, whatever entry the key had before, and a read up to
  the time to live later returns the new value. So with a default time to live, a value
  written again \<open>e1\<close> after the first write is still returned \<open>e2\<close> later, for every
  \<open>e2\<close> up to the time to live, also when \<open>e1 + e2\<close> exceeds it (1 s to live, 900 ms
  and 900 ms in the claim). Nothing is assumed of the clock.
\<close>

theorem C4_overwrite_resets_expiration:
  "items (SetWithExpiration c k v ttl) k =
     Some \<lparr>Value = v,
           Expiration = (if 0 <s ttl then UnixNano (Add (instant (clock c)) ttl) else 0)\<rparr> \<and>
   items (Set c k v) k =
     Some \<lparr>Value = v,
           Expiration = (if 0 <s defaultExpiration c
                         then UnixNano (Add (instant (clock c)) (defaultExpiration c))
                         else 0)\<rparr> \<and>
   (0 \<le> e2 \<and> e2 \<le> sint ttl \<longrightarrow>
    fst (Get (elapses e2 (SetWithExpiration c k v ttl)) k) = (Some v, True)) \<and>
   (0 \<le> e2 \<and> e2 \<le> sint (defaultExpiration c) \<longrightarrow>
    fst (Get (elapses e2 (Set (elapses e1 (Set c k v1)) k v2)) k) = (Some v2, True))"
proof (intro conjI impI)
  show "items (SetWithExpiration c k v ttl) k =
     Some \<lparr>Value = v,
           Expiration = (if 0 <s ttl then UnixNano (Add (instant (clock c)) ttl) else 0)\<rparr>"
    by (simp add: items_SetWithExpiration)
  show "items (Set c k v) k =
     Some \<lparr>Value = v,
           Expiration = (if 0 <s defaultExpiration c
                         then UnixNano (Add (instant (clock c)) (defaultExpiration c))
                         else 0)\<rparr>"
    by (simp add: Set_def items_SetWithExpiration)
next
  assume "0 \<le> e2 \<and> e2 \<le> sint ttl"
  then show "fst (Get (elapses e2 (SetWithExpiration c k v ttl)) k) = (Some v, True)"
    by (intro Get_live_after_SetWithExpiration) auto
next
  assume a: "0 \<le> e2 \<and> e2 \<le> sint (defaultExpiration c)"
  let ?c' = "elapses e1 (Set c k v1)"
  let ?ttl = "defaultExpiration c"
  have d: "defaultExpiration ?c' = ?ttl"
    by (simp add: defaultExpiration_elapses Set_def defaultExpiration_SetWithExpiration)
  have "fst (Get (elapses e2 (SetWithExpiration ?c' k v2 ?ttl)) k) = (Some v2, True)"
    using a by (intro Get_live_after_SetWithExpiration) auto
  moreover have "Set ?c' k v2 = SetWithExpiration ?c' k v2 ?ttl"
    by (subst Set_def) (simp only: d)
  ultimately show "fst (Get (elapses e2 (Set ?c' k v2)) k) = (Some v2, True)"
    by simp
qed

text \<open>
  The scenario of the tests, with the clock starting at the epoch, and the same with a
  clock that starts five seconds before it.
\<close>

theorem C4_overwrite_resets_expiration_witness:
  "items (elapses 900000000
            (Set (NewCache 1000000000 2000000000 (clockAt 0) '''') ''foo'' ''foo value''))
     ''foo'' = Some \<lparr>Value = ''foo value'', Expiration = 1000000000\<rparr> \<and>
   fst (Get (elapses 900000000 (Set (elapses 900000000
        (Set (NewCache 1000000000 2000000000 (clockAt 0) '''') ''foo'' ''foo value''))
        ''foo'' ''foo value 2'')) ''foo'') = (Some ''foo value 2'', True) \<and>
   fst (Get (elapses 900000000 (Set (elapses 900000000
        (Set (NewCache 1000000000 2000000000 (clockAt (- 5000000000)) '''')
           ''foo'' ''foo value''))
        ''foo'' ''foo value 2'')) ''foo'') = (Some ''foo value 2'', True)"
  using
    C4_overwrite_resets_expiration
      [where c = "NewCache 1000000000 2000000000 (clockAt 0) ''''"
        and ?e1.0 = 900000000 and ?e2.0 = 900000000 and k = "''foo''"
        and ?v1.0 = "''foo value''" and ?v2.0 = "''foo value 2''" and v = "''foo value''"
        and ttl = 1000000000]
    C4_overwrite_resets_expiration
      [where c = "NewCache 1000000000 2000000000 (clockAt (- 5000000000)) ''''"
        and ?e1.0 = 900000000 and ?e2.0 = 900000000 and k = "''foo''"
        and ?v1.0 = "''foo value''" and ?v2.0 = "''foo value 2''" and v = "''foo value''"
        and ttl = 1000000000]
  by (simp add: NewCache_def clockAt_def word_sless_alt items_elapses UnixNano_def Add_def)

text \<open>
  The sweep, key by key: whatever the order, a key that the loop visits keeps its entry
  exactly when the entry is not expired at the captured time, and a key that it does not
  visit keeps what it had.
\<close>

lemma deleteExpired_loop_lookup:
  "deleteExpired_loop now ks m k =
     (if k \<in> set ks
      then (case m k of None \<Rightarrow> None | Some v \<Rightarrow> if expired v now then None else Some v)
      else m k)"
  by (induction ks arbitrary: m) (auto simp: expired_def split: option.splits)

lemma items_deleteExpired:
  "items (deleteExpired c ks) = deleteExpired_loop (UnixNano (instant (clock c))) ks (items c)"
  by (simp add: deleteExpired_def Now_def Let_def)

lemma items_deleteExpired_nolog:
  "items (deleteExpired_nolog c ks) =
     deleteExpired_loop (UnixNano (instant (clock c))) ks (items c)"
  by (simp add: deleteExpired_nolog_def Now_def Let_def)

lemma reads_deleteExpired: "reads (clock (deleteExpired c ks)) = Suc (reads (clock c))"
  by (simp add: deleteExpired_def Now_def Let_def)

lemma instant_Get: "instant (clock (snd (Get c k))) = instant (clock c)"
  by (simp add: Get_def Now_def Let_def split: option.splits)

text \<open>No operation changes the cleanup interval the cache was constructed with.\<close>

lemma cleanupInterval_preserved:
  "cleanupInterval (SetWithExpiration c k v ttl) = cleanupInterval c"
  "cleanupInterval (Set c k v) = cleanupInterval c"
  "cleanupInterval (SetWithoutExpiration c k v) = cleanupInterval c"
  "cleanupInterval (Delete c k) = cleanupInterval c"
  "cleanupInterval (snd (Get c k)) = cleanupInterval c"
  "cleanupInterval (deleteExpired c ks) = cleanupInterval c"
  "cleanupInterval (elapses e c) = cleanupInterval c"
  by (simp_all add: SetWithExpiration_def Set_def SetWithoutExpiration_def Delete_def
      Get_def deleteExpired_def elapses_def Now_def Let_def split: option.splits prod.splits)

text \<open>
  C5. \<open>Get\<close> leaves the map as it was. In particular, on an entry whose expiration is
  strictly positive and in the past it returns nothing and false, the entry is still in
  the map afterwards, and a sweep that visits the key then removes it.
\<close>

theorem C5_get_keeps_map:
  "items (snd (Get c k)) = items c \<and>
   (items c k = Some it \<and> 0 <s Expiration it \<and> Expiration it <s UnixNano (instant (clock c))
    \<longrightarrow> fst (Get c k) = (None, False) \<and> items (snd (Get c k)) k = Some it \<and>
        (k \<in> set ks \<longrightarrow> items (deleteExpired (snd (Get c k)) ks) k = None))"
  by (simp add: items_Get fst_Get expired_def items_deleteExpired instant_Get
      deleteExpired_loop_lookup)

text \<open>
  The cleanup test: two keys with 1 s to live, read after 1.1 s. The key is not found,
  and its entry is still stored.
\<close>

theorem C5_get_keeps_map_witness:
  "fst (Get (elapses 1100000000
          (Set (Set (NewCache 1000000000 2000000000 (clockAt 0) '''') ''item1'' ''value1'')
             ''item2'' ''value2'')) ''item1'') = (None, False) \<and>
   items (snd (Get (elapses 1100000000
          (Set (Set (NewCache 1000000000 2000000000 (clockAt 0) '''') ''item1'' ''value1'')
             ''item2'' ''value2'')) ''item1'')) ''item1'' =
     Some \<lparr>Value = ''value1'', Expiration = 1000000000\<rparr>"
  using C5_get_keeps_map
    [where c = "elapses 1100000000
          (Set (Set (NewCache 1000000000 2000000000 (clockAt 0) '''') ''item1'' ''value1'')
             ''item2'' ''value2'')"
      and k = "''item1''" and it = "\<lparr>Value = ''value1'', Expiration = 1000000000\<rparr>"
      and ks = "[]"]
  by (simp add: items_elapses instant_elapses Set_def items_SetWithExpiration
      instant_SetWithExpiration defaultExpiration_SetWithExpiration NewCache_def clockAt_def
      UnixNano_def Add_def word_sless_alt)

text \<open>
  As the claim is written, every entry with a non-zero expiration in the past is
  reported as not found. With a negative expiration the value is returned.
\<close>

theorem C5_counterexample:
  "(- 5 :: int64) \<noteq> 0 \<and> (- 5 :: int64) <s UnixNano 90 \<and>
   fst (Get \<lparr>items = [''session'' \<mapsto> \<lparr>Value = ''token'', Expiration = - 5\<rparr>],
             defaultExpiration = 0, cleanupInterval = 0,
             clock = clockAt 90, logger = setupLogger ''''\<rparr> ''session'') =
     (Some ''token'', True)"
  by (simp add: Get_def clockAt_def Now_def UnixNano_def Let_def word_sless_alt)

text \<open>
  C6. A sweep reads the clock exactly once, and compares every entry with that one
  reading: afterwards no entry is left whose expiration is strictly positive and less
  than it, every such entry having been deleted. The order \<open>ks\<close> of the iteration is
  any enumeration of the keys.
\<close>

theorem C6_sweep_deletes_expired:
  assumes "range_order (items c) ks"
  shows "reads (clock (deleteExpired c ks)) = Suc (reads (clock c)) \<and>
         (items (deleteExpired c ks) k = Some it \<longrightarrow>
            \<not> (0 <s Expiration it \<and> Expiration it <s UnixNano (instant (clock c)))) \<and>
         (items c k = Some it \<and> 0 <s Expiration it \<and>
            Expiration it <s UnixNano (instant (clock c)) \<longrightarrow>
            items (deleteExpired c ks) k = None)"
proof -
  from assms have "set ks = dom (items c)" by (simp add: range_order_def)
  then have "\<And>k it. items c k = Some it \<Longrightarrow> k \<in> set ks" by auto
  then show ?thesis
    by (auto simp: reads_deleteExpired items_deleteExpired deleteExpired_loop_lookup
        expired_def split: option.splits if_splits)
qed

text \<open>
  The cleanup test again: the sweep at 2.1 s removes the entry of \<open>item1\<close>, and has
  read the clock once more than the two writes did.
\<close>

theorem C6_sweep_deletes_expired_witness:
  "range_order
     (items (elapses 2100000000
        (Set (Set (NewCache 1000000000 2000000000 (clockAt 0) '''') ''item1'' ''value1'')
           ''item2'' ''value2''))) [''item2'', ''item1''] \<and>
   items (deleteExpired (elapses 2100000000
        (Set (Set (NewCache 1000000000 2000000000 (clockAt 0) '''') ''item1'' ''value1'')
           ''item2'' ''value2'')) [''item2'', ''item1'']) ''item1'' = None \<and>
   reads (clock (deleteExpired (elapses 2100000000
        (Set (Set (NewCache 1000000000 2000000000 (clockAt 0) '''') ''item1'' ''value1'')
           ''item2'' ''value2'')) [''item2'', ''item1''])) = 3"
proof -
  let ?c = "elapses 2100000000
        (Set (Set (NewCache 1000000000 2000000000 (clockAt 0) '''') ''item1'' ''value1'')
           ''item2'' ''value2'') :: string Cache"
  have r: "range_order (items ?c) [''item2'', ''item1'']"
    by (auto simp: range_order_def items_elapses Set_def items_SetWithExpiration NewCache_def)
  have i: "items ?c ''item1'' = Some \<lparr>Value = ''value1'', Expiration = 1000000000\<rparr>"
    by (simp add: items_elapses Set_def items_SetWithExpiration instant_SetWithExpiration
        defaultExpiration_SetWithExpiration NewCache_def clockAt_def UnixNano_def Add_def
        word_sless_alt)
  have n: "instant (clock ?c) = 2100000000"
    by (simp add: instant_elapses Set_def instant_SetWithExpiration NewCache_def clockAt_def)
  have s: "reads (clock ?c) = 2"
    by (simp add: elapses_def Advance_def Set_def SetWithExpiration_def Now_def Let_def
        NewCache_def clockAt_def word_sless_alt)
  from C6_sweep_deletes_expired [OF r, of "''item1''"
      "\<lparr>Value = ''value1'', Expiration = 1000000000\<rparr>"] r i
  show ?thesis
    by (simp add: n s UnixNano_def word_sless_alt)
qed

text \<open>
  As the claim is written, no entry with a non-zero expiration less than the captured
  time is left. An entry with a negative expiration is left where it was.
\<close>

theorem C6_counterexample:
  "(- 7 :: int64) \<noteq> 0 \<and> (- 7 :: int64) <s UnixNano 1700000000000000000 \<and>
   range_order [''old'' \<mapsto> \<lparr>Value = ''x'', Expiration = - 7\<rparr>] [''old''] \<and>
   items (deleteExpired
            \<lparr>items = [''old'' \<mapsto> \<lparr>Value = ''x'', Expiration = - 7\<rparr>],
             defaultExpiration = 0, cleanupInterval = 1000000000,
             clock = clockAt 1700000000000000000, logger = setupLogger ''''\<rparr>
            [''old'']) ''old'' =
     Some \<lparr>Value = ''x'', Expiration = - 7\<rparr>"
  by (simp add: range_order_def deleteExpired_def clockAt_def Now_def UnixNano_def Let_def
      word_sless_alt)

text \<open>
  C7. \<open>Delete k\<close> removes the key \<open>k\<close> and nothing else: every other key keeps its
  entry, and the rest of the state is as it was. After it, \<open>Get k\<close> finds nothing,
  whatever the state was. \<open>Delete\<close> has no error result; deleting twice is deleting
  once, and deleting an absent key leaves the state as it was.
\<close>

theorem C7_delete:
  "items (Delete c k) k = None \<and>
   (k' \<noteq> k \<longrightarrow> items (Delete c k) k' = items c k') \<and>
   defaultExpiration (Delete c k) = defaultExpiration c \<and>
   cleanupInterval (Delete c k) = cleanupInterval c \<and>
   clock (Delete c k) = clock c \<and>
   logger (Delete c k) = logger c \<and>
   fst (Get (Delete c k) k) = (None, False) \<and>
   Delete (Delete c k) k = Delete c k \<and>
   (items c k = None \<longrightarrow> Delete c k = c)"
proof -
  have "Delete c k = c" if "items c k = None"
  proof -
    from that have "(items c)(k := None) = items c" by (simp add: fun_upd_idem)
    then show ?thesis by (simp add: Delete_def)
  qed
  then show ?thesis by (simp add: fst_Get Delete_def)
qed

text \<open>
  The test: \<open>foo\<close> is deleted and not found; beside it, \<open>bar\<close> keeps its entry; and
  deleting a key that is not there changes nothing.
\<close>

theorem C7_delete_witness:
  "items (Set (NewCache 1000000000 2000000000 (clockAt 0) '''') ''foo'' ''foo value'')
     ''bar'' = None \<and>
   Delete (Set (NewCache 1000000000 2000000000 (clockAt 0) '''') ''foo'' ''foo value'') ''bar'' =
     Set (NewCache 1000000000 2000000000 (clockAt 0) '''') ''foo'' ''foo value'' \<and>
   fst (Get (Delete (Set (NewCache 1000000000 2000000000 (clockAt 0) '''')
                ''foo'' ''foo value'') ''foo'') ''foo'') = (None, False) \<and>
   ''bar'' \<noteq> ''foo'' \<and>
   items (Delete (Set (Set (NewCache 1000000000 2000000000 (clockAt 0) '''')
                   ''foo'' ''foo value'') ''bar'' ''bar value'') ''foo'') ''bar'' =
     Some \<lparr>Value = ''bar value'', Expiration = 1000000000\<rparr>"
  using
    C7_delete [where k = "''bar''" and k' = "''foo''"
      and c = "Set (NewCache 1000000000 2000000000 (clockAt 0) '''') ''foo'' ''foo value''"]
    C7_delete [where k = "''foo''" and k' = "''bar''"
      and c = "Set (NewCache 1000000000 2000000000 (clockAt 0) '''') ''foo'' ''foo value''"]
    C7_delete [where k = "''foo''" and k' = "''bar''"
      and c = "Set (Set (NewCache 1000000000 2000000000 (clockAt 0) '''')
                   ''foo'' ''foo value'') ''bar'' ''bar value''"]
  by (simp add: Set_def items_SetWithExpiration instant_SetWithExpiration
      defaultExpiration_SetWithExpiration NewCache_def clockAt_def UnixNano_def Add_def
      word_sless_alt)

text \<open>
  C8. On a cache constructed with cleanup interval 0, for which no cleanup goroutine
  was started, \<open>Stop\<close> performs no channel operation, so it has nothing to block on, and
  it returns the state as it was. This holds in every state whose cleanup interval is 0,
  and no operation changes the interval (\<open>cleanupInterval_preserved\<close>).
\<close>

theorem C8_stop_without_cleanup:
  "Stop (NewCache d 0 clk env :: 'v Cache) = ([], NewCache d 0 clk env) \<and>
   \<not> NewCache_starts_cleanup 0 \<and>
   (cleanupInterval (c :: 'v Cache) = 0 \<longrightarrow> Stop c = ([], c))"
  by (simp add: Stop_def NewCache_def NewCache_starts_cleanup_def word_sless_alt)

theorem C8_stop_without_cleanup_witness:
  "cleanupInterval (Delete (Set (NewCache 1000000000 0 (clockAt 0) '''') ''foo'' ''v'') ''foo'')
     = 0 \<and>
   Stop (Delete (Set (NewCache 1000000000 0 (clockAt 0) '''') ''foo'' ''v'') ''foo'') =
     ([], Delete (Set (NewCache 1000000000 0 (clockAt 0) '''') ''foo'' ''v'') ''foo'')"
  using C8_stop_without_cleanup
    [where c = "Delete (Set (NewCache 1000000000 0 (clockAt 0) '''') ''foo'' ''v'') ''foo''"
      and d = 1000000000 and clk = "clockAt 0" and env = "''''"]
  by (simp add: cleanupInterval_preserved NewCache_def)

text \<open>
  C9. The version with logging and the version without return the same results and
  leave the same state apart from the logger, so the same map and the same clock:
  \<open>Get\<close>, \<open>SetWithExpiration\<close>, \<open>Set\<close>, \<open>Delete\<close> and the sweep (in the same iteration
  order), from every state, whatever the logger's level.
\<close>

theorem C9_logging_is_unobservable:
  "fst (Get c k) = fst (Get_nolog (forget_logger c) k) \<and>
   forget_logger (snd (Get c k)) = snd (Get_nolog (forget_logger c) k) \<and>
   items (snd (Get c k)) = items (snd (Get_nolog (forget_logger c) k)) \<and>
   forget_logger (SetWithExpiration c k v ttl) =
     SetWithExpiration_nolog (forget_logger c) k v ttl \<and>
   items (SetWithExpiration c k v ttl) =
     items (SetWithExpiration_nolog (forget_logger c) k v ttl) \<and>
   forget_logger (Set c k v) = Set_nolog (forget_logger c) k v \<and>
   forget_logger (Delete c k) = Delete_nolog (forget_logger c) k \<and>
   items (Delete c k) = items (Delete_nolog (forget_logger c) k) \<and>
   forget_logger (deleteExpired c ks) = deleteExpired_nolog (forget_logger c) ks \<and>
   items (deleteExpired c ks) = items (deleteExpired_nolog (forget_logger c) ks)"
  by (simp add: Get_def Get_nolog_def forget_logger_def SetWithExpiration_def
      SetWithExpiration_nolog_def Set_def Set_nolog_def Delete_def Delete_nolog_def
      deleteExpired_def deleteExpired_nolog_def Now_def Let_def split: option.splits)

text \<open>
  C10. A sweep removes only expired entries: an entry whose expiration is 0, or is not
  less than the captured time, is in the map after the sweep with the same key, value
  and expiration, in both versions and for every iteration order.
\<close>

theorem C10_sweep_keeps_live_entries:
  assumes "items c k = Some it"
    and "Expiration it = 0 \<or> UnixNano (instant (clock c)) \<le>s Expiration it"
  shows "items (deleteExpired c ks) k = Some it \<and>
         items (deleteExpired_nolog (forget_logger c) ks) k = Some it"
proof -
  from assms(2) have "\<not> expired it (UnixNano (instant (clock c)))"
    by (auto simp: expired_def word_sless_alt word_sle_eq)
  with assms(1) show ?thesis
    by (simp add: items_deleteExpired items_deleteExpired_nolog deleteExpired_loop_lookup
        forget_logger_def)
qed

text \<open>A sweep at 2.1 s: the entry without expiration stays, beside an expired one.\<close>

theorem C10_sweep_keeps_live_entries_witness:
  "items (deleteExpired (elapses 2100000000
        (SetWithoutExpiration
           (Set (NewCache 1000000000 2000000000 (clockAt 0) '''') ''item1'' ''value1'')
           ''forever'' ''value2'')) [''item1'', ''forever'']) ''forever'' =
     Some \<lparr>Value = ''value2'', Expiration = 0\<rparr> \<and>
   items (deleteExpired (elapses 2100000000
        (SetWithoutExpiration
           (Set (NewCache 1000000000 2000000000 (clockAt 0) '''') ''item1'' ''value1'')
           ''forever'' ''value2'')) [''item1'', ''forever'']) ''item1'' = None"
proof -
  let ?c = "elapses 2100000000
        (SetWithoutExpiration
           (Set (NewCache 1000000000 2000000000 (clockAt 0) '''') ''item1'' ''value1'')
           ''forever'' ''value2'') :: string Cache"
  have i: "items ?c ''forever'' = Some \<lparr>Value = ''value2'', Expiration = 0\<rparr>"
    by (simp add: items_elapses SetWithoutExpiration_def items_SetWithExpiration
        word_sless_alt)
  have "items (deleteExpired ?c [''item1'', ''forever'']) ''item1'' = None"
    by (simp add: items_deleteExpired deleteExpired_loop_lookup expired_def items_elapses
        instant_elapses SetWithoutExpiration_def Set_def items_SetWithExpiration
        instant_SetWithExpiration defaultExpiration_SetWithExpiration NewCache_def
        clockAt_def UnixNano_def Add_def word_sless_alt)
  with C10_sweep_keeps_live_entries [OF i, of "[''item1'', ''forever'']"]
  show ?thesis by simp
qed

end
